theory Spec2Isabelle
  imports Complex_Main "HOL-Library.Word"
begin

unbundle bit_operations_syntax

section \<open>Values and exceptions\<close>

text \<open>
  The analysis server is Python. Its exceptions are values of the type \<open>exn\<close>, and a
  function that may raise returns \<open>exn + 'a\<close>, with \<open>Inl\<close> for the raised exception.
  Each constructor carries the message of the exception; \<open>exn_str\<close> is \<open>str(e)\<close>.
\<close>

type_synonym byte = "8 word"

definition quoted :: "string \<Rightarrow> string" where
  "quoted s = CHR 0x27 # s @ [CHR 0x27]"

fun str_of_nat :: "nat \<Rightarrow> string" where
  "str_of_nat n =
     (if n < 10 then [char_of (48 + n)]
      else str_of_nat (n div 10) @ [char_of (48 + n mod 10)])"

datatype exn =
    ValueError string
  | TypeError string
  | IndexError string
  | HTTPException nat string
  | LibraryError string

fun exn_str :: "exn \<Rightarrow> string" where
  "exn_str (ValueError m) = m"
| "exn_str (TypeError m) = m"
| "exn_str (IndexError m) = m"
| "exn_str (HTTPException c m) = str_of_nat c @ '': '' @ m"
| "exn_str (LibraryError m) = m"

text \<open>
  Python values are dynamically typed. The values that flow through the analyzer are
  numpy arrays of samples (one or two dimensional), integers, floats and strings. The
  decoded samples are \<open>real\<close>: a 16-bit integer divided by \<open>32768.0\<close> is exact in
  float32. The floats that the estimators of librosa and essentia return are of a type
  \<open>'f\<close> that the model leaves open.
\<close>

datatype 'f pyval =
    NDArray1 "real list"
  | NDArray2 "real list list"
  | PyInt int
  | PyFloat 'f
  | PyStr string

fun is_ndarray :: "'f pyval \<Rightarrow> bool" where
  "is_ndarray (NDArray1 xs) = True"
| "is_ndarray (NDArray2 rows) = True"
| "is_ndarray v = False"

fun nd_size :: "'f pyval \<Rightarrow> nat" where
  "nd_size (NDArray1 xs) = length xs"
| "nd_size (NDArray2 rows) = sum_list (map length rows)"
| "nd_size v = 0"

section \<open>The PCM decoder (main.py, decode_pcm)\<close>

text \<open>
  \<open>np.frombuffer(pcm_bytes, dtype=np.int16)\<close> reads the buffer two bytes at a time, low
  byte first on the little-endian hosts the server runs on, and raises ValueError when
  the buffer's size is not a multiple of the element size.
\<close>

definition int16_of_bytes :: "byte \<Rightarrow> byte \<Rightarrow> 16 word" where
  "int16_of_bytes lo hi = push_bit 8 (ucast hi) OR ucast lo"

fun int16_le :: "byte list \<Rightarrow> 16 word list" where
  "int16_le (lo # hi # rest) = int16_of_bytes lo hi # int16_le rest"
| "int16_le rest = []"

definition frombuffer_int16 :: "byte list \<Rightarrow> exn + 16 word list" where
  "frombuffer_int16 buf =
     (if odd (length buf)
      then Inl (ValueError ''buffer size must be a multiple of element size'')
      else Inr (int16_le buf))"

text \<open>
  \<open>audio.reshape((-1, channels))\<close> cuts the flat array into rows of \<open>channels\<close>
  samples and raises ValueError when the size is not a multiple of \<open>channels\<close>.
\<close>

definition reshape_rows :: "nat \<Rightarrow> 'a list \<Rightarrow> exn + 'a list list" where
  "reshape_rows c xs =
     (if length xs mod c \<noteq> 0
      then Inl (ValueError (''cannot reshape array of size '' @ str_of_nat (length xs)
                              @ '' into shape ('' @ str_of_nat c @ '')''))
      else Inr (map (\<lambda>i. take c (drop (i * c) xs)) [0..<length xs div c]))"

definition sample_of_int16 :: "16 word \<Rightarrow> real" where
  "sample_of_int16 w = real_of_int (sint w) / 32768"

text \<open>
  The body of the \<open>try\<close> block of decode_pcm: any exception raised there, the
  ValueError of the size test included, is caught and raised again as a ValueError.
\<close>

definition to_int16_array :: "byte list \<Rightarrow> exn + 16 word list" where
  "to_int16_array pcm_bytes =
     (case frombuffer_int16 pcm_bytes of
        Inl e \<Rightarrow> Inl e
      | Inr audio \<Rightarrow>
          if length audio = 0 then Inl (ValueError ''Decoded audio buffer is empty'')
          else Inr audio)"

definition decode_pcm :: "byte list \<Rightarrow> int \<Rightarrow> int \<Rightarrow> exn + ('f pyval \<times> int)" where
  "decode_pcm pcm_bytes sample_rate channels =
     (if pcm_bytes = [] then Inl (ValueError ''Empty audio buffer'')
      else case to_int16_array pcm_bytes of
        Inl e \<Rightarrow> Inl (ValueError (''Failed to convert buffer: '' @ exn_str e))
      | Inr audio \<Rightarrow>
          if channels > 1
          then (case reshape_rows (nat channels) audio of
                  Inl e \<Rightarrow> Inl e
                | Inr rows \<Rightarrow> Inr (NDArray2 (map (map sample_of_int16) rows), sample_rate))
          else Inr (NDArray1 (map sample_of_int16 audio), sample_rate))"

section \<open>The estimators (Music_Anaylizer.py, bpm_detection.py, key_detection.py)\<close>

text \<open>
  The libraries the analyzer calls are not part of the repository. They are the fields
  of a record that every function of the model takes as its first argument:
  \<^item> \<open>beat_track lib y sr\<close> is the tempo of \<open>librosa.beat.beat_track(y=y, sr=sr)\<close>: an
    array of floats, a numpy scalar or a Python float, as the library's version and the
    signal decide;
  \<^item> \<open>key_extractor lib audio\<close> is \<open>es.KeyExtractor()(audio)\<close>;
  \<^item> \<open>sf_read lib bytes\<close> is \<open>sf.read(io.BytesIO(bytes))\<close>;
  \<^item> \<open>float_of_int\<close>, \<open>float_times\<close> and \<open>float_fixed lib d x\<close> are Python's floats: the
    conversion from an integer, the product, and \<open>format(x, ".df")\<close>.
  Each library call may raise.
\<close>

datatype 'f tempo = TempoArray "'f list" | TempoScalar 'f | TempoFloat 'f

record 'f lib =
  beat_track :: "'f pyval \<Rightarrow> int \<Rightarrow> exn + 'f tempo"
  key_extractor :: "'f pyval \<Rightarrow> exn + (string \<times> string \<times> 'f)"
  sf_read :: "byte list \<Rightarrow> exn + ('f pyval \<times> int)"
  float_of_int :: "int \<Rightarrow> 'f"
  float_times :: "'f \<Rightarrow> 'f \<Rightarrow> 'f"
  float_fixed :: "nat \<Rightarrow> 'f \<Rightarrow> string"

text \<open>
  \<open>format(v, ".df")\<close>, which an f-string \<open>{v:.df}\<close> and \<open>"{:.df}".format(v)\<close> both call.
  A float or an integer is printed with \<open>d\<close> decimals; a string does not know the
  format code \<open>f\<close> and raises ValueError; an array raises TypeError.
\<close>

fun py_format_fixed :: "'f lib \<Rightarrow> nat \<Rightarrow> 'f pyval \<Rightarrow> exn + string" where
  "py_format_fixed lib d (PyFloat x) = Inr (float_fixed lib d x)"
| "py_format_fixed lib d (PyInt n) = Inr (float_fixed lib d (float_of_int lib n))"
| "py_format_fixed lib d (PyStr s) =
     Inl (ValueError (''Unknown format code '' @ quoted ''f'' @ '' for object of type ''
                        @ quoted ''str''))"
| "py_format_fixed lib d (NDArray1 xs) =
     Inl (TypeError ''unsupported format string passed to numpy.ndarray.__format__'')"
| "py_format_fixed lib d (NDArray2 rows) =
     Inl (TypeError ''unsupported format string passed to numpy.ndarray.__format__'')"

text \<open>
  \<open>tempo[0]\<close>: the first element of an array; an empty array and a numpy scalar raise
  IndexError, a Python float is not subscriptable and raises TypeError.
\<close>

fun tempo_item0 :: "'f tempo \<Rightarrow> exn + 'f" where
  "tempo_item0 (TempoArray []) =
     Inl (IndexError ''index 0 is out of bounds for axis 0 with size 0'')"
| "tempo_item0 (TempoArray (x # rest)) = Inr x"
| "tempo_item0 (TempoScalar x) = Inl (IndexError ''invalid index to scalar variable.'')"
| "tempo_item0 (TempoFloat x) =
     Inl (TypeError (quoted ''float'' @ '' object is not subscriptable''))"

definition detect_BPM :: "'f lib \<Rightarrow> 'f pyval \<Rightarrow> int \<Rightarrow> exn + 'f tempo" where
  "detect_BPM lib audio sample_rate = beat_track lib audio sample_rate"

definition detect_keySignature :: "'f lib \<Rightarrow> 'f pyval \<Rightarrow> exn + (string \<times> string \<times> 'f)" where
  "detect_keySignature lib audio = key_extractor lib audio"

definition find_bpm :: "'f lib \<Rightarrow> 'f pyval \<Rightarrow> exn + string" where
  "find_bpm lib audio =
     (case detect_BPM lib audio 44100 of
        Inl e \<Rightarrow> Inl e
      | Inr tempo \<Rightarrow>
          (case tempo_item0 tempo of
             Inl e \<Rightarrow> Inl e
           | Inr x \<Rightarrow> py_format_fixed lib 3 (PyFloat x)))"

definition find_keysig :: "'f lib \<Rightarrow> 'f pyval \<Rightarrow> exn + (string \<times> string \<times> string)" where
  "find_keysig lib audio =
     (case detect_keySignature lib audio of
        Inl e \<Rightarrow> Inl e
      | Inr (key, scale, strength) \<Rightarrow>
          (case py_format_fixed lib 2
                  (PyFloat (float_times lib strength (float_of_int lib 100))) of
             Inl e \<Rightarrow> Inl e
           | Inr s \<Rightarrow> Inr (key, scale, s @ ''%'')))"

text \<open>
  A Python call binds the positional arguments to the parameters and raises TypeError
  when their numbers differ. Both helpers have the one parameter \<open>audio\<close>.
\<close>

definition arity_error :: "string \<Rightarrow> nat \<Rightarrow> exn" where
  "arity_error name n =
     (if n = 0
      then TypeError (name @ ''() missing 1 required positional argument: '' @ quoted ''audio'')
      else TypeError (name @ ''() takes 1 positional argument but '' @ str_of_nat n
                        @ '' were given''))"

definition call_find_bpm :: "'f lib \<Rightarrow> 'f pyval list \<Rightarrow> exn + string" where
  "call_find_bpm lib args =
     (case args of
        [audio] \<Rightarrow> find_bpm lib audio
      | _ \<Rightarrow> Inl (arity_error ''find_bpm'' (length args)))"

definition call_find_keysig ::
  "'f lib \<Rightarrow> 'f pyval list \<Rightarrow> exn + (string \<times> string \<times> string)" where
  "call_find_keysig lib args =
     (case args of
        [audio] \<Rightarrow> find_keysig lib audio
      | _ \<Rightarrow> Inl (arity_error ''find_keysig'' (length args)))"

section \<open>JSON results\<close>

datatype jvalue = JStr string | JArray "jvalue list"

type_synonym json = "(string \<times> jvalue) list"

definition detected_result :: "string \<Rightarrow> string \<Rightarrow> string \<Rightarrow> json" where
  "detected_result bpm key_str strength =
     [(''bpm'', JStr bpm), (''key'', JStr key_str), (''strength'', JStr strength),
      (''status'', JStr ''Detected'')]"

definition error_result :: json where
  "error_result = [(''bpm'', JStr ''Unknown''), (''key'', JStr ''Unknown''),
                   (''status'', JStr ''Error'')]"

definition stopped_result :: json where
  "stopped_result = [(''status'', JStr ''Stopped'')]"

section \<open>The one-shot endpoint (main.py, verify_api_key and analyze_audio)\<close>

text \<open>
  A request carries its headers, a map from the header's name to its value, and the
  uploaded file's bytes.
\<close>

record request =
  headers :: "string \<rightharpoonup> string"
  upload_file :: "byte list"

definition API_KEY :: string where
  "API_KEY = ''your-secret-key''"

definition verify_api_key :: "request \<Rightarrow> exn + unit" where
  "verify_api_key request =
     (let key = headers request ''x-api-key''
      in if key \<noteq> Some API_KEY then Inl (HTTPException 403 ''Unauthorized'') else Inr ())"

text \<open>
  The response is its status code and its JSON body. Beside it the model returns the
  steps that touched the upload, in order: reading the file and decoding it.
\<close>

datatype upload_step = FileRead | SoundfileRead

datatype response = Response nat json

definition analyze_audio_try :: "'f lib \<Rightarrow> byte list \<Rightarrow> exn + json" where
  "analyze_audio_try lib audio_bytes =
     (case sf_read lib audio_bytes of
        Inl e \<Rightarrow> Inl e
      | Inr (y, sr) \<Rightarrow>
          (case call_find_bpm lib [y, PyInt sr] of
             Inl e \<Rightarrow> Inl e
           | Inr bpm \<Rightarrow>
               (case call_find_keysig lib [y, PyInt sr] of
                  Inl e \<Rightarrow> Inl e
                | Inr (key, scale, strength) \<Rightarrow>
                    Inr [(''bpm'', JStr bpm),
                         (''key'', JArray [JStr key, JStr scale, JStr strength]),
                         (''status'', JStr ''Detected'')])))"

definition analyze_audio :: "'f lib \<Rightarrow> byte list \<Rightarrow> response \<times> upload_step list" where
  "analyze_audio lib upload =
     (case analyze_audio_try lib upload of
        Inr body \<Rightarrow> (Response 200 body, [FileRead, SoundfileRead])
      | Inl e \<Rightarrow> (Response 500 [(''error'', JStr (exn_str e))], [FileRead, SoundfileRead]))"

text \<open>
  What the route does with a request that the router has handed to it: FastAPI runs the
  dependency \<open>verify_api_key\<close> first and calls the endpoint only when it returned; an
  HTTPException becomes the response of that status.
\<close>

definition post_analyze :: "'f lib \<Rightarrow> request \<Rightarrow> response \<times> upload_step list" where
  "post_analyze lib request =
     (case verify_api_key request of
        Inl (HTTPException code detail) \<Rightarrow> (Response code [(''detail'', JStr detail)], [])
      | Inl e \<Rightarrow> (Response 500 [(''detail'', JStr ''Internal Server Error'')], [])
      | Inr u \<Rightarrow> analyze_audio lib (upload_file request))"

text \<open>
  The router. \<open>@app.post("analyze")\<close> registers the route under the path \<open>analyze\<close>,
  written without a leading slash, and the path is compiled to the regular expression
  \<open>^analyze$\<close>, which the request's path is matched against (\<open>$\<close> also matches before
  a final newline). The other HTTP routes of the application are the documentation
  pages of FastAPI, which answer GET only. A POST request whose path matches the route
  is handed to it; on a documentation page it is answered 405; when the path with a
  slash added, or with its final slashes removed, matches a route it is redirected;
  every other request is answered 404.
\<close>

definition route_matches :: "string \<Rightarrow> string \<Rightarrow> bool" where
  "route_matches route_path path = (path = route_path \<or> path = route_path @ [CHR 0x0A])"

definition ANALYZE_ROUTE :: string where
  "ANALYZE_ROUTE = ''analyze''"

definition docs_routes :: "string list" where
  "docs_routes = [''/openapi.json'', ''/docs'', ''/docs/oauth2-redirect'', ''/redoc'']"

definition docs_route_matches :: "string \<Rightarrow> bool" where
  "docs_route_matches path = list_ex (\<lambda>route_path. route_matches route_path path) docs_routes"

definition redirect_path :: "string \<Rightarrow> string" where
  "redirect_path path =
     (if path \<noteq> [] \<and> last path = CHR ''/''
      then rev (dropWhile (\<lambda>c. c = CHR ''/'') (rev path))
      else path @ ''/'')"

definition app_post :: "'f lib \<Rightarrow> string \<Rightarrow> request \<Rightarrow> response \<times> upload_step list" where
  "app_post lib path request =
     (if route_matches ANALYZE_ROUTE path then post_analyze lib request
      else if docs_route_matches path
      then (Response 405 [(''detail'', JStr ''Method Not Allowed'')], [])
      else if path \<noteq> ''/'' \<and>
              (route_matches ANALYZE_ROUTE (redirect_path path) \<or>
               docs_route_matches (redirect_path path))
      then (Response 307 [], [])
      else (Response 404 [(''detail'', JStr ''Not Found'')], []))"

section \<open>The streaming session (main.py, websocket_audio)\<close>

definition SAMPLE_RATE :: nat where "SAMPLE_RATE = 44100"
definition CHANNELS :: nat where "CHANNELS = 1"
definition SECONDS :: nat where "SECONDS = 5"
definition BYTES_PER_SAMPLE :: nat where "BYTES_PER_SAMPLE = 2"

definition TARGET_SIZE :: nat where
  "TARGET_SIZE = SAMPLE_RATE * CHANNELS * BYTES_PER_SAMPLE * SECONDS"

text \<open>
  A received message is a dictionary; the handler looks only at the keys \<open>bytes\<close> and
  \<open>text\<close>. A field is \<open>None\<close> when the key is absent. Strings are sequences of code
  points below 256.
\<close>

record ws_message =
  msg_bytes :: "byte list option"
  msg_text :: "string option"

text \<open>
  What \<open>await websocket.receive()\<close> does, one event per call: it returns a message or
  it raises (the peer is gone). When the events are used up the handler is waiting in
  \<open>receive\<close>.
\<close>

datatype event = Receive ws_message | ReceiveRaises exn

definition py_isspace :: "char \<Rightarrow> bool" where
  "py_isspace c = (of_char c \<in> {9, 10, 11, 12, 13, 28, 29, 30, 31, 32, 133, 160 :: nat})"

definition py_strip :: "string \<Rightarrow> string" where
  "py_strip s = rev (dropWhile py_isspace (rev (dropWhile py_isspace s)))"

definition py_lower_char :: "char \<Rightarrow> char" where
  "py_lower_char c =
     (let n = of_char c :: nat
      in if (65 \<le> n \<and> n \<le> 90) \<or> (192 \<le> n \<and> n \<le> 222 \<and> n \<noteq> 215)
         then char_of (n + 32) else c)"

definition py_lower :: "string \<Rightarrow> string" where
  "py_lower s = map py_lower_char s"

text \<open>
  The session: the byte buffer, the JSON messages sent to the peer so far (every
  \<open>send_json\<close> is taken to succeed), and the code of \<open>websocket.close\<close> once it was called.
\<close>

record session =
  audio_buffer :: "byte list"
  sent :: "json list"
  closed :: "nat option"

text \<open>
  The accumulator inside the handler: \<open>audio_buffer.extend(chunk)\<close>, the test against
  TARGET_SIZE, the slice \<open>audio_buffer[:TARGET_SIZE]\<close> that is analysed, and
  \<open>audio_buffer.clear()\<close>. It returns the window, if one is complete, and the buffer
  that the next message finds.
\<close>

definition ingest :: "byte list \<Rightarrow> byte list \<Rightarrow> byte list option \<times> byte list" where
  "ingest buffer chunk =
     (let extended = buffer @ chunk
      in if length extended \<ge> TARGET_SIZE
         then (Some (take TARGET_SIZE extended), [])
         else (None, extended))"

text \<open>The inner \<open>try\<close> block: decode the window, estimate, build the result.\<close>

definition analyze_window :: "'f lib \<Rightarrow> byte list \<Rightarrow> exn + json" where
  "analyze_window lib window =
     (case decode_pcm window (int SAMPLE_RATE) (int CHANNELS) of
        Inl e \<Rightarrow> Inl e
      | Inr (y, sr) \<Rightarrow>
          if \<not> is_ndarray y then Inl (TypeError ''Audio must be a numpy.ndarray'')
          else if nd_size y = 0 then Inl (ValueError ''Received empty audio array'')
          else
            (case find_bpm lib y of
               Inl e \<Rightarrow> Inl e
             | Inr bpm \<Rightarrow>
                 (case find_keysig lib y of
                    Inl e \<Rightarrow> Inl e
                  | Inr (key, scale, strength) \<Rightarrow>
                      (case py_format_fixed lib 1 (PyStr strength) of
                         Inl e \<Rightarrow> Inl e
                       | Inr s \<Rightarrow> Inr (detected_result bpm (key @ scale) (s @ ''%''))))))"

datatype 'a ctl = Continue 'a | Break 'a

text \<open>One turn of the \<open>while True\<close> loop, after \<open>receive\<close> returned \<open>msg\<close>.\<close>

definition loop_body :: "'f lib \<Rightarrow> session \<Rightarrow> ws_message \<Rightarrow> session ctl" where
  "loop_body lib s msg =
     (case msg_bytes msg of
        Some chunk \<Rightarrow>
          (case ingest (audio_buffer s) chunk of
             (Some window, buffer') \<Rightarrow>
               Continue (s\<lparr>audio_buffer := buffer',
                           sent := sent s @ [case analyze_window lib window of
                                               Inr result \<Rightarrow> result
                                             | Inl processing_error \<Rightarrow> error_result]\<rparr>)
           | (None, buffer') \<Rightarrow> Continue (s\<lparr>audio_buffer := buffer'\<rparr>))
      | None \<Rightarrow>
          (case msg_text msg of
             Some text \<Rightarrow>
               if py_lower (py_strip text) = ''stop''
               then Break (s\<lparr>sent := sent s @ [stopped_result]\<rparr>)
               else Continue s
           | None \<Rightarrow> Continue s))"

definition close_ws :: "nat \<Rightarrow> session \<Rightarrow> session" where
  "close_ws code s = s\<lparr>closed := Some code\<rparr>"

text \<open>
  The loop with its handlers: an exception of \<open>receive\<close> is caught by the outer
  \<open>except\<close>, a \<open>break\<close> leaves the loop, and both reach the \<open>finally\<close> that closes the
  connection with code 1000.
\<close>

fun session_loop :: "'f lib \<Rightarrow> session \<Rightarrow> event list \<Rightarrow> session" where
  "session_loop lib s [] = s"
| "session_loop lib s (ReceiveRaises e # rest) = close_ws 1000 s"
| "session_loop lib s (Receive msg # rest) =
     (case loop_body lib s msg of
        Continue s' \<Rightarrow> session_loop lib s' rest
      | Break s' \<Rightarrow> close_ws 1000 s')"

definition new_session :: session where
  "new_session = \<lparr>audio_buffer = [], sent = [], closed = None\<rparr>"

definition websocket_audio :: "'f lib \<Rightarrow> event list \<Rightarrow> session" where
  "websocket_audio lib events = session_loop lib new_session events"

text \<open>The windows that a sequence of chunks yields, and the buffer left at its end.\<close>

fun feed :: "byte list \<Rightarrow> byte list list \<Rightarrow> byte list list \<times> byte list" where
  "feed buffer [] = ([], buffer)"
| "feed buffer (chunk # chunks) =
     (case ingest buffer chunk of
        (Some window, buffer') \<Rightarrow>
          (case feed buffer' chunks of (windows, final) \<Rightarrow> (window # windows, final))
      | (None, buffer') \<Rightarrow> feed buffer' chunks)"

section \<open>A stub environment\<close>

text \<open>
  Estimators for running the model on concrete inputs. Their floats are whole numbers,
  printed with zeros for the decimals. The beat tracker's tempo grows with the sample
  rate it is given (120 at 44100 Hz); the key is always C major with full strength; every
  upload decodes to one silent sample at 44100 Hz. None of them raises.
\<close>

definition stub_lib :: "nat lib" where
  "stub_lib =
     \<lparr>beat_track = (\<lambda>audio sr. Inr (TempoArray [nat sr * 120 div 44100])),
      key_extractor = (\<lambda>audio. Inr (''C'', ''major'', 1)),
      sf_read = (\<lambda>bytes. Inr (NDArray1 [0], 44100)),
      float_of_int = nat,
      float_times = (\<lambda>x y. x * y),
      float_fixed = (\<lambda>d x. str_of_nat x @ ''.'' @ replicate d CHR ''0'')\<rparr>"

text \<open>The same environment with a beat tracker that raises.\<close>

definition failing_lib :: "nat lib" where
  "failing_lib =
     stub_lib\<lparr>beat_track := (\<lambda>audio sr. Inl (LibraryError ''beat tracking failed''))\<rparr>"

definition pcm_chunk :: event where
  "pcm_chunk = Receive \<lparr>msg_bytes = Some (replicate 44100 0), msg_text = None\<rparr>"

definition authorized_request :: request where
  "authorized_request =
     \<lparr>headers = [''x-api-key'' \<mapsto> ''your-secret-key''], upload_file = [82, 73, 70, 70]\<rparr>"

section \<open>Properties of the decoder\<close>

lemma length_int16_le: "length (int16_le buf) = length buf div 2"
  by (induction buf rule: int16_le.induct) simp_all

lemma sample_of_int16_range: "- 1 \<le> sample_of_int16 w \<and> sample_of_int16 w < 1"
proof -
  have lo: "- 32768 \<le> sint w"
    using sint_ge [of w] by simp
  have hi: "sint w < 32768"
    using sint_lt [of w] by simp
  have "real_of_int (- 32768) \<le> real_of_int (sint w)"
    using lo by (simp only: of_int_le_iff)
  moreover have "real_of_int (sint w) < real_of_int 32768"
    using hi by (simp only: of_int_less_iff)
  ultimately show ?thesis
    unfolding sample_of_int16_def by (simp add: field_simps)
qed

lemma decode_pcm_mono:
  assumes "pcm_bytes \<noteq> []" and "even (length pcm_bytes)" and "channels \<le> 1"
  shows "decode_pcm pcm_bytes sample_rate channels =
           Inr (NDArray1 (map sample_of_int16 (int16_le pcm_bytes)), sample_rate)"
proof -
  from assms(1,2) have "2 \<le> length pcm_bytes"
    by (cases pcm_bytes; cases "tl pcm_bytes") auto
  then have "length (int16_le pcm_bytes) \<noteq> 0"
    by (simp add: length_int16_le)
  with assms show ?thesis
    by (simp add: decode_pcm_def to_int16_array_def frombuffer_int16_def)
qed

text \<open>
  C4. For every non-empty byte sequence of even length, decode_pcm with one channel
  returns the samples of the little-endian 16-bit values divided by 32768: half as many
  samples as bytes, each in the interval from -1 (included) to 1 (excluded).
\<close>

theorem decode_pcm_length_range:
  assumes "pcm_bytes \<noteq> []" and "even (length pcm_bytes)"
  shows "\<exists>samples.
           decode_pcm pcm_bytes sample_rate 1 = Inr (NDArray1 samples, sample_rate) \<and>
           samples = map (\<lambda>w. real_of_int (sint w) / 32768) (int16_le pcm_bytes) \<and>
           length samples = length pcm_bytes div 2 \<and>
           (\<forall>x \<in> set samples. - 1 \<le> x \<and> x < 1)"
proof -
  let ?samples = "map sample_of_int16 (int16_le pcm_bytes)"
  have "decode_pcm pcm_bytes sample_rate 1 = Inr (NDArray1 ?samples, sample_rate)"
    using assms by (simp add: decode_pcm_mono)
  moreover have "?samples = map (\<lambda>w. real_of_int (sint w) / 32768) (int16_le pcm_bytes)"
    by (simp add: sample_of_int16_def)
  moreover have "length ?samples = length pcm_bytes div 2"
    by (simp add: length_int16_le)
  moreover have "\<forall>x \<in> set ?samples. - 1 \<le> x \<and> x < 1"
    using sample_of_int16_range by auto
  ultimately show ?thesis by blast
qed

theorem decode_pcm_length_range_witness:
  "[0, 128, 255, 127] \<noteq> ([] :: byte list) \<and> even (length [0, 128, 255, 127 :: byte]) \<and>
   (\<exists>samples.
      (decode_pcm [0, 128, 255, 127] 44100 1 :: exn + (real pyval \<times> int))
        = Inr (NDArray1 samples, 44100) \<and>
      samples = [- 1, 32767 / 32768] \<and> length samples = 2 \<and>
      (\<forall>x \<in> set samples. - 1 \<le> x \<and> x < 1))"
  using decode_pcm_length_range [of "[0, 128, 255, 127]" 44100]
  by (simp add: int16_of_bytes_def)

text \<open>
  C5. decode_pcm on the empty byte sequence raises (a ValueError), whatever the sample
  rate and the channel count are.
\<close>

theorem decode_pcm_empty_raises:
  "decode_pcm [] sample_rate channels = Inl (ValueError ''Empty audio buffer'')"
  by (simp add: decode_pcm_def)

section \<open>The window accumulator\<close>

lemma TARGET_SIZE_eq: "TARGET_SIZE = 441000"
  by (simp add: TARGET_SIZE_def SAMPLE_RATE_def CHANNELS_def BYTES_PER_SAMPLE_def SECONDS_def)

lemma ingest_Some:
  "ingest buffer chunk = (Some w, buffer') \<Longrightarrow>
     length w = TARGET_SIZE \<and> w = take TARGET_SIZE (buffer @ chunk) \<and> buffer' = []"
  by (auto simp: ingest_def Let_def split: if_splits)

lemma ingest_full:
  "TARGET_SIZE \<le> length (buffer @ chunk) \<Longrightarrow>
     ingest buffer chunk = (Some (take TARGET_SIZE (buffer @ chunk)), [])"
  by (simp add: ingest_def)

lemma ingest_short:
  "length (buffer @ chunk) < TARGET_SIZE \<Longrightarrow> ingest buffer chunk = (None, buffer @ chunk)"
  by (simp add: ingest_def)

lemma feed_Cons_full:
  assumes "TARGET_SIZE \<le> length (buffer @ chunk)"
  shows "feed buffer (chunk # chunks) =
           (take TARGET_SIZE (buffer @ chunk) # fst (feed [] chunks), snd (feed [] chunks))"
proof -
  have "ingest buffer chunk = (Some (take TARGET_SIZE (buffer @ chunk)), [])"
    using assms by (rule ingest_full)
  then show ?thesis
    by (simp add: case_prod_unfold)
qed

lemma feed_Cons_short:
  assumes "length (buffer @ chunk) < TARGET_SIZE"
  shows "feed buffer (chunk # chunks) = feed (buffer @ chunk) chunks"
proof -
  have "ingest buffer chunk = (None, buffer @ chunk)"
    using assms by (rule ingest_short)
  then show ?thesis by simp
qed

lemma feed_windows_length: "w \<in> set (fst (feed buffer chunks)) \<Longrightarrow> length w = TARGET_SIZE"
proof (induction chunks arbitrary: buffer)
  case Nil
  then show ?case by simp
next
  case (Cons chunk chunks)
  show ?case
  proof (cases "TARGET_SIZE \<le> length (buffer @ chunk)")
    case True
    then have "feed buffer (chunk # chunks) =
        (take TARGET_SIZE (buffer @ chunk) # fst (feed [] chunks), snd (feed [] chunks))"
      by (rule feed_Cons_full)
    with Cons.prems
    have "w = take TARGET_SIZE (buffer @ chunk) \<or> w \<in> set (fst (feed [] chunks))"
      by simp
    then show ?thesis
    proof
      assume "w = take TARGET_SIZE (buffer @ chunk)"
      with True show ?thesis by (simp only: length_take min_absorb2)
    next
      assume "w \<in> set (fst (feed [] chunks))"
      then show ?thesis by (rule Cons.IH)
    qed
  next
    case False
    then have "length (buffer @ chunk) < TARGET_SIZE"
      by (simp only: not_le)
    then have "feed buffer (chunk # chunks) = feed (buffer @ chunk) chunks"
      by (rule feed_Cons_short)
    with Cons.prems have "w \<in> set (fst (feed (buffer @ chunk) chunks))"
      by simp
    then show ?thesis by (rule Cons.IH)
  qed
qed

lemma feed_below:
  "length (buffer @ concat chunks) < TARGET_SIZE \<Longrightarrow>
     feed buffer chunks = ([], buffer @ concat chunks)"
proof (induction chunks arbitrary: buffer)
  case Nil
  then show ?case by simp
next
  case (Cons chunk chunks)
  from Cons.prems have short: "length (buffer @ chunk) < TARGET_SIZE" by simp
  from Cons.prems have "length ((buffer @ chunk) @ concat chunks) < TARGET_SIZE" by simp
  then have "feed (buffer @ chunk) chunks = ([], (buffer @ chunk) @ concat chunks)"
    by (rule Cons.IH)
  moreover from short have "feed buffer (chunk # chunks) = feed (buffer @ chunk) chunks"
    by (rule feed_Cons_short)
  ultimately show ?case by simp
qed

lemma feed_exact:
  "length buffer < TARGET_SIZE \<Longrightarrow> length (buffer @ concat chunks) = TARGET_SIZE \<Longrightarrow>
     feed buffer chunks = ([buffer @ concat chunks], [])"
proof (induction chunks arbitrary: buffer)
  case Nil
  then show ?case by simp
next
  case (Cons chunk chunks)
  show ?case
  proof (cases "TARGET_SIZE \<le> length (buffer @ chunk)")
    case True
    from Cons.prems(2)
    have total: "length buffer + length chunk + length (concat chunks) = TARGET_SIZE"
      by simp
    from True have "TARGET_SIZE \<le> length buffer + length chunk"
      by simp
    with total have len0: "length (concat chunks) = 0" by linarith
    then have rest: "concat chunks = []" by (simp only: length_0_conv)
    have "0 < TARGET_SIZE" by (simp add: TARGET_SIZE_eq)
    with len0 have "length ([] @ concat chunks) < TARGET_SIZE"
      by (simp only: append_Nil)
    then have "feed [] chunks = ([], [] @ concat chunks)"
      by (rule feed_below)
    then have tail: "feed [] chunks = ([], [])"
      by (simp only: rest append_Nil)
    from total len0 have "length (buffer @ chunk) = TARGET_SIZE"
      by simp
    then have "length (buffer @ chunk) \<le> TARGET_SIZE"
      by (simp only: order_refl)
    then have whole: "take TARGET_SIZE (buffer @ chunk) = buffer @ chunk"
      by (rule take_all)
    from True have "feed buffer (chunk # chunks) =
        (take TARGET_SIZE (buffer @ chunk) # fst (feed [] chunks), snd (feed [] chunks))"
      by (rule feed_Cons_full)
    then have "feed buffer (chunk # chunks) = ([buffer @ chunk], [])"
      by (simp only: tail whole fst_conv snd_conv)
    moreover have "buffer @ concat (chunk # chunks) = buffer @ chunk"
      by (simp only: concat.simps rest append_Nil2)
    ultimately show ?thesis by (simp only:)
  next
    case False
    then have short: "length (buffer @ chunk) < TARGET_SIZE"
      by (simp only: not_le)
    from Cons.prems(2) have "length ((buffer @ chunk) @ concat chunks) = TARGET_SIZE"
      by simp
    with short have "feed (buffer @ chunk) chunks = ([(buffer @ chunk) @ concat chunks], [])"
      by (rule Cons.IH)
    moreover from short have "feed buffer (chunk # chunks) = feed (buffer @ chunk) chunks"
      by (rule feed_Cons_short)
    ultimately show ?thesis by simp
  qed
qed

text \<open>
  C3. The accumulator yields only windows of 441000 bytes. When the extended buffer
  reaches the target it yields its first 441000 bytes and leaves an empty buffer, the
  excess dropped; below the target it yields nothing and keeps the bytes. Every window
  of a sequence of chunks has 441000 bytes, and a byte string of 441000 bytes, fed from
  the empty buffer in any number of chunks, yields that string as the one window.
\<close>

theorem accumulator_exact_window:
  "(ingest buffer chunk = (Some w, buffer') \<longrightarrow>
      length w = 441000 \<and> w = take 441000 (buffer @ chunk) \<and> buffer' = []) \<and>
   (441000 \<le> length (buffer @ chunk) \<longrightarrow>
      ingest buffer chunk = (Some (take 441000 (buffer @ chunk)), [])) \<and>
   (length (buffer @ chunk) < 441000 \<longrightarrow> ingest buffer chunk = (None, buffer @ chunk)) \<and>
   (\<forall>w \<in> set (fst (feed buffer chunks)). length w = 441000) \<and>
   (length data = 441000 \<and> concat parts = data \<longrightarrow> feed [] parts = ([data], []))"
proof -
  have "ingest buffer chunk = (Some w, buffer') \<longrightarrow>
          length w = 441000 \<and> w = take 441000 (buffer @ chunk) \<and> buffer' = []"
    using ingest_Some [of buffer chunk w buffer'] by (simp only: TARGET_SIZE_eq) blast
  moreover have "441000 \<le> length (buffer @ chunk) \<longrightarrow>
          ingest buffer chunk = (Some (take 441000 (buffer @ chunk)), [])"
    using ingest_full [of buffer chunk] by (simp only: TARGET_SIZE_eq) blast
  moreover have "length (buffer @ chunk) < 441000 \<longrightarrow> ingest buffer chunk = (None, buffer @ chunk)"
    using ingest_short [of buffer chunk] by (simp only: TARGET_SIZE_eq) blast
  moreover have "\<forall>w \<in> set (fst (feed buffer chunks)). length w = 441000"
    using feed_windows_length [of _ buffer chunks] by (simp only: TARGET_SIZE_eq) blast
  moreover have "length data = 441000 \<and> concat parts = data \<longrightarrow> feed [] parts = ([data], [])"
  proof
    assume h: "length data = 441000 \<and> concat parts = data"
    have "length ([] :: byte list) < TARGET_SIZE"
      by (simp add: TARGET_SIZE_eq)
    moreover from h have "length ([] @ concat parts) = TARGET_SIZE"
      by (simp add: TARGET_SIZE_eq del: length_concat)
    ultimately have "feed [] parts = ((Nil @ concat parts) # [], [])"
      by (rule feed_exact)
    with h show "feed [] parts = ([data], [])" by simp
  qed
  ultimately show ?thesis by (intro conjI)
qed

theorem accumulator_exact_window_witness:
  "ingest (replicate 400000 1) (replicate 50000 2)
     = (Some (replicate 400000 1 @ replicate 41000 2), []) \<and>
   length (replicate 400000 1 @ replicate 41000 (2 :: byte)) = 441000 \<and>
   ingest (replicate 400000 1) (replicate 40000 2)
     = (None, replicate 400000 1 @ replicate 40000 2) \<and>
   feed [] [replicate 441000 7] = ([replicate 441000 7], []) \<and>
   feed [] [replicate 220500 7, replicate 220500 7] = ([replicate 441000 7], []) \<and>
   feed [] [replicate 147000 7, replicate 147000 7, replicate 147000 7]
     = ([replicate 441000 7], [])"
proof -
  note thm1 = accumulator_exact_window
    [of "replicate 400000 1" "replicate 50000 2" "replicate 400000 1 @ replicate 41000 2" "[]"
        "[]" "replicate 441000 7" "[replicate 441000 7]"]
  note thm2 = accumulator_exact_window
    [of "replicate 400000 1" "replicate 40000 2" "[]" "[]"
        "[]" "replicate 441000 7" "[replicate 220500 7, replicate 220500 7]"]
  note thm3 = accumulator_exact_window
    [of "[]" "[]" "[]" "[]"
        "[]" "replicate 441000 7" "[replicate 147000 7, replicate 147000 7, replicate 147000 7]"]
  have two: "replicate 220500 (7::byte) @ replicate 220500 7 = replicate 441000 7"
    by (simp add: replicate_add [symmetric])
  have three: "replicate 147000 (7::byte) @ replicate 147000 7 @ replicate 147000 7 = replicate 441000 7"
    by (simp add: replicate_add [symmetric])
  show ?thesis
    using thm1 thm2 thm3 by (simp add: two three)
qed

section \<open>The inner try block\<close>

text \<open>
  The strength that find_keysig returns is a string, so the format with one decimal
  raises on it: whatever the estimators do, the \<open>try\<close> block never reaches its
  \<open>send_json\<close>, and a completed window is answered by the \<open>except\<close> branch.
\<close>

lemma analyze_window_raises: "\<exists>e. analyze_window lib window = Inl e"
  by (auto simp: analyze_window_def split: sum.splits prod.splits)

lemma loop_body_bytes:
  assumes "msg_bytes msg = Some chunk"
  shows "loop_body lib s msg =
           Continue (if TARGET_SIZE \<le> length (audio_buffer s @ chunk)
                     then s\<lparr>audio_buffer := [], sent := sent s @ [error_result]\<rparr>
                     else s\<lparr>audio_buffer := audio_buffer s @ chunk\<rparr>)"
proof -
  obtain e where "analyze_window lib (take TARGET_SIZE (audio_buffer s @ chunk)) = Inl e"
    using analyze_window_raises by blast
  with assms show ?thesis
    by (simp add: loop_body_def ingest_def Let_def del: length_append take_append)
qed

lemma str_of_nat_values:
  "str_of_nat 2 = ''2''" "str_of_nat 100 = ''100''" "str_of_nat 120 = ''120''" "str_of_nat 60 = ''60''"
  by code_simp+

lemma zeros: "replicate 3 CHR ''0'' = ''000''" "replicate 2 CHR ''0'' = ''00''"
  by code_simp+

lemma find_bpm_stub: "find_bpm stub_lib audio = Inr ''120.000''"
  by (simp add: find_bpm_def detect_BPM_def stub_lib_def str_of_nat_values zeros del: str_of_nat.simps)

lemma find_keysig_stub: "find_keysig stub_lib audio = Inr (''C'', ''major'', ''100.00%'')"
  by (simp add: find_keysig_def detect_keySignature_def stub_lib_def str_of_nat_values zeros del: str_of_nat.simps)

lemma arity2: "arity_error ''find_bpm'' 2 = TypeError ''find_bpm() takes 1 positional argument but 2 were given''"
  by (simp add: arity_error_def str_of_nat_values del: str_of_nat.simps)

lemma analyze_window_stub:
  assumes "window \<noteq> []" and "even (length window)"
  shows "analyze_window stub_lib window =
           Inl (ValueError (''Unknown format code '' @ quoted ''f''
                              @ '' for object of type '' @ quoted ''str''))"
proof -
  let ?y = "NDArray1 (map sample_of_int16 (int16_le window)) :: nat pyval"
  have dec: "decode_pcm window (int SAMPLE_RATE) (int CHANNELS) = Inr (?y, int SAMPLE_RATE)"
    using assms by (intro decode_pcm_mono) (simp_all add: CHANNELS_def)
  from assms have "2 \<le> length window"
    by (cases window; cases "tl window") auto
  then have size: "nd_size ?y \<noteq> 0"
    by (simp add: length_int16_le)
  show ?thesis
    using size
    by (simp add: analyze_window_def dec find_bpm_stub find_keysig_stub)
qed

section \<open>The session loop\<close>

lemma analyze_window_error:
  assumes "(\<exists>e. (decode_pcm window (int SAMPLE_RATE) (int CHANNELS) :: exn + ('f pyval \<times> int)) = Inl e) \<or>
           (\<exists>y sr e. decode_pcm window (int SAMPLE_RATE) (int CHANNELS) = Inr (y, sr) \<and>
                       (find_bpm lib y = Inl e \<or> find_keysig lib y = Inl e))"
  shows "\<exists>e. analyze_window (lib :: 'f lib) window = Inl e"
  using assms by (auto simp: analyze_window_def split: sum.splits prod.splits)

text \<open>
  C7. A binary message completes a window, and decoding the window raises, or find_bpm
  or find_keysig raises on the decoded audio. Then this turn of the loop appends the one
  result with status Error to what was sent, empties the buffer and continues: the
  session goes on with the messages that follow.
\<close>

theorem analysis_error_keeps_session:
  assumes "msg_bytes msg = Some chunk"
    and "TARGET_SIZE \<le> length (audio_buffer s @ chunk)"
    and "window = take TARGET_SIZE (audio_buffer s @ chunk)"
    and "(\<exists>e. (decode_pcm window 44100 1 :: exn + ('f pyval \<times> int)) = Inl e) \<or>
         (\<exists>y sr e. decode_pcm window 44100 1 = Inr (y, sr) \<and>
                     (find_bpm lib y = Inl e \<or> find_keysig lib y = Inl e))"
  shows "loop_body (lib :: 'f lib) s msg =
           Continue (s\<lparr>audio_buffer := [], sent := sent s @ [error_result]\<rparr>) \<and>
         session_loop lib s (Receive msg # rest) =
           session_loop lib (s\<lparr>audio_buffer := [], sent := sent s @ [error_result]\<rparr>) rest"
proof -
  from assms(4) obtain e where "analyze_window lib window = Inl e"
    using analyze_window_error [of window lib]
    by (auto simp: SAMPLE_RATE_def CHANNELS_def)
  with assms(1-3) have "loop_body lib s msg =
      Continue (s\<lparr>audio_buffer := [], sent := sent s @ [error_result]\<rparr>)"
    by (simp add: loop_body_def ingest_def Let_def del: length_append take_append)
  then show ?thesis by simp
qed

theorem analysis_error_keeps_session_witness:
  "loop_body failing_lib new_session \<lparr>msg_bytes = Some (replicate 441000 0), msg_text = None\<rparr>
     = Continue \<lparr>audio_buffer = [], sent = [error_result], closed = None\<rparr> \<and>
   session_loop failing_lib new_session
       [Receive \<lparr>msg_bytes = Some (replicate 441000 0), msg_text = None\<rparr>,
        Receive \<lparr>msg_bytes = Some [1, 2], msg_text = None\<rparr>]
     = \<lparr>audio_buffer = [1, 2], sent = [error_result], closed = None\<rparr>"
proof -
  let ?window = "replicate 441000 (0 :: byte)"
  let ?msg = "\<lparr>msg_bytes = Some ?window, msg_text = None\<rparr>"
  have dec: "(decode_pcm ?window 44100 1 :: exn + (nat pyval \<times> int))
               = Inr (NDArray1 (map sample_of_int16 (int16_le ?window)), 44100)"
    by (rule decode_pcm_mono) simp_all
  have bpm: "find_bpm failing_lib y = Inl (LibraryError ''beat tracking failed'')" for y
    by (simp add: find_bpm_def detect_BPM_def failing_lib_def)
  have raises: "(\<exists>e. (decode_pcm ?window 44100 1 :: exn + (nat pyval \<times> int)) = Inl e) \<or>
         (\<exists>y sr e. decode_pcm ?window 44100 1 = Inr (y, sr) \<and>
                     (find_bpm failing_lib y = Inl e \<or> find_keysig failing_lib y = Inl e))"
    using dec bpm by blast
  have "msg_bytes ?msg = Some ?window" by simp
  moreover have "TARGET_SIZE \<le> length (audio_buffer new_session @ ?window)"
    by (simp add: TARGET_SIZE_eq new_session_def)
  moreover have "?window = take TARGET_SIZE (audio_buffer new_session @ ?window)"
    by (simp add: TARGET_SIZE_eq new_session_def)
  ultimately have step: "loop_body failing_lib new_session ?msg =
           Continue (new_session\<lparr>audio_buffer := [], sent := sent new_session @ [error_result]\<rparr>) \<and>
         session_loop failing_lib new_session
            (Receive ?msg # [Receive \<lparr>msg_bytes = Some [1, 2], msg_text = None\<rparr>]) =
           session_loop failing_lib
            (new_session\<lparr>audio_buffer := [], sent := sent new_session @ [error_result]\<rparr>)
            [Receive \<lparr>msg_bytes = Some [1, 2], msg_text = None\<rparr>]"
    using raises by (rule analysis_error_keeps_session)
  have next_msg: "loop_body failing_lib \<lparr>audio_buffer = [], sent = [error_result], closed = None\<rparr>
          \<lparr>msg_bytes = Some [1, 2], msg_text = None\<rparr>
        = Continue \<lparr>audio_buffer = [1, 2], sent = [error_result], closed = None\<rparr>"
    by (simp add: loop_body_bytes TARGET_SIZE_eq)
  from step next_msg show ?thesis
    by (simp add: new_session_def)
qed

text \<open>
  C6. A text message (no bytes key) whose stripped, lower-cased content is "stop" makes
  the loop break: the one message with status Stopped is sent, the connection is closed
  with code 1000, the messages that follow are not read, and the buffered bytes are
  left as they are, never analysed.
\<close>

theorem stop_command_ends_session:
  assumes "msg_bytes msg = None"
    and "msg_text msg = Some text"
    and "py_lower (py_strip text) = ''stop''"
  shows "loop_body lib s msg = Break (s\<lparr>sent := sent s @ [stopped_result]\<rparr>) \<and>
         session_loop lib s (Receive msg # rest) =
           s\<lparr>sent := sent s @ [stopped_result], closed := Some 1000\<rparr>"
proof -
  from assms have "loop_body lib s msg = Break (s\<lparr>sent := sent s @ [stopped_result]\<rparr>)"
    by (simp add: loop_body_def)
  then show ?thesis
    by (simp add: close_ws_def)
qed

theorem stop_command_ends_session_witness:
  "websocket_audio stub_lib
     [Receive \<lparr>msg_bytes = None, msg_text = Some '' StOP  ''\<rparr>, pcm_chunk]
     = \<lparr>audio_buffer = [], sent = [stopped_result], closed = Some 1000\<rparr> \<and>
   session_loop stub_lib \<lparr>audio_buffer = [1, 2, 3], sent = [], closed = None\<rparr>
     [Receive \<lparr>msg_bytes = None, msg_text = Some ''STOP''\<rparr>, pcm_chunk, pcm_chunk]
     = \<lparr>audio_buffer = [1, 2, 3], sent = [stopped_result], closed = Some 1000\<rparr>"
proof -
  have t1: "py_lower (py_strip '' StOP  '') = ''stop''" by code_simp
  have t2: "py_lower (py_strip ''STOP'') = ''stop''" by code_simp
  note a = stop_command_ends_session
    [of "\<lparr>msg_bytes = None, msg_text = Some '' StOP  ''\<rparr>" "'' StOP  ''" stub_lib new_session
        "[pcm_chunk]"]
  note b = stop_command_ends_session
    [of "\<lparr>msg_bytes = None, msg_text = Some ''STOP''\<rparr>" "''STOP''" stub_lib
        "\<lparr>audio_buffer = [1, 2, 3], sent = [], closed = None\<rparr>" "[pcm_chunk, pcm_chunk]"]
  from a b t1 t2 show ?thesis
    by (simp add: websocket_audio_def new_session_def del: session_loop.simps)
qed

text \<open>
  C9. After the handler has processed a binary message, the buffer is shorter than
  441000 bytes; when the message completed a window the buffer is empty, whatever the
  analysis of the window did, raising included (the statement holds for every
  environment of estimators).
\<close>

theorem buffer_below_target:
  assumes "msg_bytes msg = Some chunk"
  shows "\<exists>s'. loop_body lib s msg = Continue s' \<and>
              length (audio_buffer s') < 441000 \<and>
              (441000 \<le> length (audio_buffer s @ chunk) \<longrightarrow> audio_buffer s' = [])"
proof (cases "TARGET_SIZE \<le> length (audio_buffer s @ chunk)")
  case True
  let ?w = "take TARGET_SIZE (audio_buffer s @ chunk)"
  let ?s' = "s\<lparr>audio_buffer := [],
                 sent := sent s @ [case analyze_window lib ?w of
                                     Inr result \<Rightarrow> result
                                   | Inl processing_error \<Rightarrow> error_result]\<rparr>"
  from True have "ingest (audio_buffer s) chunk = (Some ?w, [])"
    by (rule ingest_full)
  with assms have "loop_body lib s msg = Continue ?s'"
    by (simp add: loop_body_def)
  moreover have "length (audio_buffer ?s') < 441000" by simp
  moreover have "audio_buffer ?s' = []" by simp
  ultimately show ?thesis by (intro exI [of _ ?s']) simp
next
  case False
  then have short: "length (audio_buffer s @ chunk) < TARGET_SIZE"
    by (simp only: not_le)
  let ?s' = "s\<lparr>audio_buffer := audio_buffer s @ chunk\<rparr>"
  from short have "ingest (audio_buffer s) chunk = (None, audio_buffer s @ chunk)"
    by (rule ingest_short)
  with assms have "loop_body lib s msg = Continue ?s'"
    by (simp add: loop_body_def)
  moreover from short have "length (audio_buffer ?s') < 441000"
    by (simp add: TARGET_SIZE_eq)
  moreover from short have "\<not> 441000 \<le> length (audio_buffer s @ chunk)"
    by (simp add: TARGET_SIZE_eq)
  ultimately show ?thesis by (intro exI [of _ ?s']) simp
qed

theorem buffer_below_target_witness:
  "(\<exists>s'. loop_body failing_lib \<lparr>audio_buffer = replicate 440999 5, sent = [], closed = None\<rparr>
            \<lparr>msg_bytes = Some [1, 2, 3], msg_text = None\<rparr> = Continue s' \<and>
         length (audio_buffer s') < 441000 \<and> audio_buffer s' = []) \<and>
   (\<exists>s'. loop_body stub_lib \<lparr>audio_buffer = replicate 440990 5, sent = [], closed = None\<rparr>
            \<lparr>msg_bytes = Some [1, 2, 3], msg_text = None\<rparr> = Continue s' \<and>
         length (audio_buffer s') < 441000 \<and> length (audio_buffer s') = 440993)"
proof -
  note a = buffer_below_target
    [of "\<lparr>msg_bytes = Some [1, 2, 3], msg_text = None\<rparr>" "[1, 2, 3]" failing_lib
        "\<lparr>audio_buffer = replicate 440999 5, sent = [], closed = None\<rparr>"]
  note b = buffer_below_target
    [of "\<lparr>msg_bytes = Some [1, 2, 3], msg_text = None\<rparr>" "[1, 2, 3]" stub_lib
        "\<lparr>audio_buffer = replicate 440990 5, sent = [], closed = None\<rparr>"]
  have c: "loop_body stub_lib \<lparr>audio_buffer = replicate 440990 5, sent = [], closed = None\<rparr>
            \<lparr>msg_bytes = Some [1, 2, 3], msg_text = None\<rparr>
           = Continue \<lparr>audio_buffer = replicate 440990 5 @ [1, 2, 3], sent = [], closed = None\<rparr>"
    by (simp add: loop_body_bytes TARGET_SIZE_eq)
  from a have first: "\<exists>s'. loop_body failing_lib \<lparr>audio_buffer = replicate 440999 5, sent = [], closed = None\<rparr>
            \<lparr>msg_bytes = Some [1, 2, 3], msg_text = None\<rparr> = Continue s' \<and>
         length (audio_buffer s') < 441000 \<and> audio_buffer s' = []"
    by simp
  from b c have second: "\<exists>s'. loop_body stub_lib \<lparr>audio_buffer = replicate 440990 5, sent = [], closed = None\<rparr>
            \<lparr>msg_bytes = Some [1, 2, 3], msg_text = None\<rparr> = Continue s' \<and>
         length (audio_buffer s') < 441000 \<and> length (audio_buffer s') = 440993"
    by simp
  from first second show ?thesis by (rule conjI)
qed

section \<open>The one-shot endpoint and the helpers\<close>

lemma analyze_route_unreachable:
  assumes "path = [] \<or> hd path = CHR ''/''"
  shows "\<not> route_matches ANALYZE_ROUTE path"
  using assms by (auto simp: route_matches_def ANALYZE_ROUTE_def)

lemma app_post_never_reaches_route:
  assumes "path = [] \<or> hd path = CHR ''/''"
  shows "app_post lib path request \<in>
           {(Response 405 [(''detail'', JStr ''Method Not Allowed'')], []),
            (Response 307 [], []),
            (Response 404 [(''detail'', JStr ''Not Found'')], [])}"
proof -
  from assms have "\<not> route_matches ANALYZE_ROUTE path"
    by (rule analyze_route_unreachable)
  then show ?thesis
    by (simp add: app_post_def)
qed

lemma app_post_slash_analyze:
  "app_post lib ''/analyze'' request = (Response 404 [(''detail'', JStr ''Not Found'')], [])"
  by (simp add: app_post_def route_matches_def ANALYZE_ROUTE_def docs_route_matches_def
      docs_routes_def redirect_path_def)

text \<open>
  C8. A POST request to the path /analyze whose x-api-key header is missing or wrong.
  The route was registered under the path analyze, without the leading slash, so the
  router matches it with no path that begins with a slash: the answer is 404 Not Found,
  verify_api_key is not called, and the request is not rejected as unauthorized.
\<close>

theorem unauthorized_request_not_found:
  "app_post stub_lib ''/analyze'' \<lparr>headers = Map.empty, upload_file = [82, 73, 70, 70]\<rparr>
     = (Response 404 [(''detail'', JStr ''Not Found'')], []) \<and>
   app_post stub_lib ''/analyze''
       \<lparr>headers = [''x-api-key'' \<mapsto> ''guess''], upload_file = [82, 73, 70, 70]\<rparr>
     = (Response 404 [(''detail'', JStr ''Not Found'')], [])"
  by (simp add: app_post_slash_analyze)

lemma app_post_matched:
  "app_post lib ''analyze'' request = post_analyze lib request"
  by (simp add: app_post_def route_matches_def ANALYZE_ROUTE_def)

text \<open>
  The dependency itself, for a request that reaches the route, rejects a missing or wrong
  key with status 403 before the endpoint is entered, and lets the matching key pass.
\<close>

lemma verify_api_key_rejects:
  "(headers request ''x-api-key'' \<noteq> Some ''your-secret-key'' \<longrightarrow>
      verify_api_key request = Inl (HTTPException 403 ''Unauthorized'') \<and>
      post_analyze lib request = (Response 403 [(''detail'', JStr ''Unauthorized'')], [])) \<and>
   (headers request ''x-api-key'' = Some ''your-secret-key'' \<longrightarrow>
      verify_api_key request = Inr () \<and>
      post_analyze lib request = analyze_audio lib (upload_file request))"
  by (simp add: verify_api_key_def post_analyze_def API_KEY_def Let_def)

lemma call_find_bpm_two:
  "call_find_bpm lib [audio, sr] =
     Inl (TypeError ''find_bpm() takes 1 positional argument but 2 were given'')"
proof -
  have "length [audio, sr] = 2" by simp
  then show ?thesis
    by (simp add: call_find_bpm_def arity2 del: length_Cons list.size)
qed

text \<open>
  C10. find_bpm has the one parameter audio and asks the beat tracker at 44100 Hz. When
  the tracker returns an array, the result is its first tempo printed with three
  decimals; when the tracker raises, or its tempo cannot be indexed, find_bpm raises
  that exception; and a BPM string is returned in no other way. So what find_bpm
  returns depends on the tracker only through its value at 44100 Hz, whatever the
  sample rate of the material was. A call with a second argument raises TypeError.
\<close>

theorem find_bpm_fixed_sample_rate:
  "(beat_track lib audio 44100 = Inr (TempoArray (x # rest)) \<longrightarrow>
      find_bpm lib audio = Inr (float_fixed lib 3 x)) \<and>
   (beat_track lib audio 44100 = Inl e \<longrightarrow> find_bpm lib audio = Inl e) \<and>
   (beat_track lib audio 44100 = Inr tempo \<and> tempo_item0 tempo = Inl e \<longrightarrow>
      find_bpm lib audio = Inl e) \<and>
   (find_bpm lib audio = Inr bpm \<longrightarrow>
      (\<exists>y ys. beat_track lib audio 44100 = Inr (TempoArray (y # ys)) \<and>
               bpm = float_fixed lib 3 y)) \<and>
   (beat_track lib audio 44100 = beat_track lib' audio 44100 \<and> float_fixed lib = float_fixed lib'
      \<longrightarrow> find_bpm lib audio = find_bpm lib' audio) \<and>
   call_find_bpm lib [audio] = find_bpm lib audio \<and>
   call_find_bpm lib [audio, sr] =
     Inl (TypeError ''find_bpm() takes 1 positional argument but 2 were given'')"
proof -
  have ok: "beat_track lib audio 44100 = Inr (TempoArray (x # rest)) \<longrightarrow>
      find_bpm lib audio = Inr (float_fixed lib 3 x)"
    by (simp add: find_bpm_def detect_BPM_def)
  have raised: "beat_track lib audio 44100 = Inl e \<longrightarrow> find_bpm lib audio = Inl e"
    by (simp add: find_bpm_def detect_BPM_def)
  have no_item: "beat_track lib audio 44100 = Inr tempo \<and> tempo_item0 tempo = Inl e \<longrightarrow>
      find_bpm lib audio = Inl e"
    by (simp add: find_bpm_def detect_BPM_def)
  have only: "find_bpm lib audio = Inr bpm \<longrightarrow>
      (\<exists>y ys. beat_track lib audio 44100 = Inr (TempoArray (y # ys)) \<and>
               bpm = float_fixed lib 3 y)"
  proof
    assume r: "find_bpm lib audio = Inr bpm"
    then obtain tempo where t: "beat_track lib audio 44100 = Inr tempo"
      by (cases "beat_track lib audio 44100") (simp_all add: find_bpm_def detect_BPM_def)
    with r obtain y where y: "tempo_item0 tempo = Inr y" and b: "bpm = float_fixed lib 3 y"
      by (cases "tempo_item0 tempo") (auto simp: find_bpm_def detect_BPM_def)
    from y obtain ys where "tempo = TempoArray (y # ys)"
      by (cases tempo rule: tempo_item0.cases) simp_all
    with t b show "\<exists>y ys. beat_track lib audio 44100 = Inr (TempoArray (y # ys)) \<and>
               bpm = float_fixed lib 3 y"
      by blast
  qed
  have same: "beat_track lib audio 44100 = beat_track lib' audio 44100 \<and>
      float_fixed lib = float_fixed lib' \<longrightarrow> find_bpm lib audio = find_bpm lib' audio"
    by (simp add: find_bpm_def detect_BPM_def split: sum.splits)
  have one: "call_find_bpm lib [audio] = find_bpm lib audio"
    by (simp add: call_find_bpm_def)
  from ok raised no_item only same one call_find_bpm_two [of lib audio sr]
  show ?thesis by (intro conjI)
qed

theorem find_bpm_fixed_sample_rate_witness:
  "find_bpm stub_lib (NDArray1 [0]) = Inr ''120.000'' \<and>
   find_bpm failing_lib (NDArray1 [0]) = Inl (LibraryError ''beat tracking failed'') \<and>
   find_bpm (stub_lib\<lparr>beat_track := (\<lambda>audio sr. Inr (TempoFloat 0))\<rparr>) (NDArray1 [0])
     = Inl (TypeError (quoted ''float'' @ '' object is not subscriptable'')) \<and>
   (\<exists>y ys. beat_track stub_lib (NDArray1 [0]) 44100 = Inr (TempoArray (y # ys)) \<and>
            ''120.000'' = float_fixed stub_lib 3 y) \<and>
   find_bpm stub_lib (NDArray1 [0])
     = find_bpm (stub_lib\<lparr>beat_track := (\<lambda>audio sr. Inr (TempoArray [120]))\<rparr>) (NDArray1 [0]) \<and>
   beat_track stub_lib (NDArray1 [0]) 22050
     \<noteq> beat_track (stub_lib\<lparr>beat_track := (\<lambda>audio sr. Inr (TempoArray [120]))\<rparr>)
         (NDArray1 [0]) 22050 \<and>
   call_find_bpm stub_lib [NDArray1 [0], PyInt 22050]
     = Inl (TypeError ''find_bpm() takes 1 positional argument but 2 were given'')"
proof -
  let ?a = "NDArray1 [0] :: nat pyval"
  let ?float_lib = "stub_lib\<lparr>beat_track := (\<lambda>audio sr. Inr (TempoFloat 0))\<rparr>"
  let ?flat_lib = "stub_lib\<lparr>beat_track := (\<lambda>audio sr. Inr (TempoArray [120]))\<rparr>"
  have track: "beat_track stub_lib ?a 44100 = Inr (TempoArray (120 # []))"
    by (simp add: stub_lib_def)
  have fmt: "float_fixed stub_lib 3 120 = ''120.000''"
    by (simp add: stub_lib_def str_of_nat_values zeros del: str_of_nat.simps)
  have fails: "beat_track failing_lib ?a 44100 = Inl (LibraryError ''beat tracking failed'')"
    by (simp add: failing_lib_def)
  have flt: "beat_track ?float_lib ?a 44100 = Inr (TempoFloat 0) \<and>
      tempo_item0 (TempoFloat (0::nat)) = Inl (TypeError (quoted ''float'' @ '' object is not subscriptable''))"
    by simp
  have agree: "beat_track stub_lib ?a 44100 = beat_track ?flat_lib ?a 44100 \<and>
      float_fixed stub_lib = float_fixed ?flat_lib"
    by (simp add: stub_lib_def)
  have differ: "beat_track stub_lib ?a 22050 \<noteq> beat_track ?flat_lib ?a 22050"
    by (simp add: stub_lib_def)
  note t1 = find_bpm_fixed_sample_rate
    [of stub_lib ?a 120 "[]" "LibraryError ''beat tracking failed''" "TempoArray [120]"
        "''120.000''" ?flat_lib "PyInt 22050"]
  note t2 = find_bpm_fixed_sample_rate
    [of failing_lib ?a 120 "[]" "LibraryError ''beat tracking failed''" "TempoArray [120]"
        "''120.000''" failing_lib "PyInt 22050"]
  note t3 = find_bpm_fixed_sample_rate
    [of ?float_lib ?a 120 "[]" "TypeError (quoted ''float'' @ '' object is not subscriptable'')"
        "TempoFloat 0" "''120.000''" ?float_lib "PyInt 22050"]
  from t1 track have bpm: "find_bpm stub_lib ?a = Inr (float_fixed stub_lib 3 120)"
    by blast
  from t1 bpm fmt
  have only: "\<exists>y ys. beat_track stub_lib ?a 44100 = Inr (TempoArray (y # ys)) \<and>
            ''120.000'' = float_fixed stub_lib 3 y"
    by simp
  from t1 agree have same: "find_bpm stub_lib ?a = find_bpm ?flat_lib ?a"
    by blast
  from t1 have two: "call_find_bpm stub_lib [?a, PyInt 22050]
     = Inl (TypeError ''find_bpm() takes 1 positional argument but 2 were given'')"
    by blast
  from t2 fails have raised: "find_bpm failing_lib ?a = Inl (LibraryError ''beat tracking failed'')"
    by blast
  from t3 flt have no_item: "find_bpm ?float_lib ?a
      = Inl (TypeError (quoted ''float'' @ '' object is not subscriptable''))"
    by blast
  from bpm fmt have formatted: "find_bpm stub_lib ?a = Inr ''120.000''"
    by simp
  from formatted raised no_item only same differ two show ?thesis
    by blast
qed

lemma oneshot_authorized_error:
  assumes "headers request ''x-api-key'' = Some API_KEY"
    and "sf_read lib (upload_file request) = Inr (y, sr)"
  shows "post_analyze lib request =
           (Response 500
              [(''error'', JStr ''find_bpm() takes 1 positional argument but 2 were given'')],
            [FileRead, SoundfileRead])"
  using assms
  by (simp add: post_analyze_def verify_api_key_def analyze_audio_def analyze_audio_try_def
      call_find_bpm_two)

lemma oneshot_never_detected: "fst (post_analyze lib request) \<noteq> Response 200 body"
  by (auto simp: post_analyze_def verify_api_key_def analyze_audio_def analyze_audio_try_def
      call_find_bpm_two Let_def split: sum.splits prod.splits)

text \<open>
  C2. The one-shot endpoint on an authorized request whose upload decodes: the endpoint
  calls find_bpm with the audio and the sample rate, two arguments for one parameter;
  the TypeError is caught and the response is the status 500 with the error message,
  not the Detected result.
\<close>

theorem oneshot_authorized_upload_fails:
  "post_analyze stub_lib authorized_request =
     (Response 500
        [(''error'', JStr ''find_bpm() takes 1 positional argument but 2 were given'')],
      [FileRead, SoundfileRead])"
proof -
  have "headers authorized_request ''x-api-key'' = Some API_KEY"
    by (simp add: authorized_request_def API_KEY_def)
  moreover have "sf_read stub_lib (upload_file authorized_request) = Inr (NDArray1 [0], 44100)"
    by (simp add: stub_lib_def)
  ultimately show ?thesis
    by (rule oneshot_authorized_error)
qed

lemma sent_loop_body:
  assumes "set (sent s) \<subseteq> {error_result, stopped_result}"
    and "loop_body lib s msg = Continue s' \<or> loop_body lib s msg = Break s'"
  shows "set (sent s') \<subseteq> {error_result, stopped_result}"
proof (cases "msg_bytes msg")
  case (Some chunk)
  with assms show ?thesis
    by (auto simp: loop_body_bytes split: if_splits)
next
  case None
  with assms show ?thesis
    by (auto simp: loop_body_def split: option.splits if_splits)
qed

lemma sent_session_loop:
  "set (sent s) \<subseteq> {error_result, stopped_result} \<Longrightarrow>
     set (sent (session_loop lib s events)) \<subseteq> {error_result, stopped_result}"
proof (induction events arbitrary: s)
  case Nil
  then show ?case by simp
next
  case (Cons ev events)
  show ?case
  proof (cases ev)
    case (Receive msg)
    show ?thesis
    proof (cases "loop_body lib s msg")
      case (Continue s')
      with Cons.prems have "set (sent s') \<subseteq> {error_result, stopped_result}"
        using sent_loop_body [of s lib msg s'] by simp
      then have "set (sent (session_loop lib s' events)) \<subseteq> {error_result, stopped_result}"
        by (rule Cons.IH)
      with Receive Continue show ?thesis by simp
    next
      case (Break s')
      with Cons.prems have "set (sent s') \<subseteq> {error_result, stopped_result}"
        using sent_loop_body [of s lib msg s'] by simp
      with Receive Break show ?thesis by (simp add: close_ws_def)
    qed
  next
    case (ReceiveRaises e)
    with Cons.prems show ?thesis by (simp add: close_ws_def)
  qed
qed

lemma streaming_never_detected:
  "detected_result bpm key_str strength \<notin> set (sent (websocket_audio lib events))"
proof -
  have "set (sent (websocket_audio lib events)) \<subseteq> {error_result, stopped_result}"
    unfolding websocket_audio_def by (rule sent_session_loop) (simp add: new_session_def)
  moreover have "detected_result bpm key_str strength \<noteq> error_result"
    by (simp add: detected_result_def error_result_def)
  moreover have "detected_result bpm key_str strength \<noteq> stopped_result"
    by (simp add: detected_result_def stopped_result_def)
  ultimately show ?thesis by blast
qed

text \<open>
  C1. A session that receives 441000 bytes in ten chunks of 44100 bytes: nothing is
  sent after the first nine chunks, and the one result sent after the tenth has the
  status Error, not Detected. The estimators of the stub do not raise; find_keysig
  returns the strength as a string, and the handler's format with one decimal raises
  on a string.
\<close>

theorem streaming_ten_chunks_error:
  "sent (websocket_audio stub_lib
      [pcm_chunk, pcm_chunk, pcm_chunk, pcm_chunk, pcm_chunk, pcm_chunk, pcm_chunk, pcm_chunk,
       pcm_chunk]) = [] \<and>
   websocket_audio stub_lib
      [pcm_chunk, pcm_chunk, pcm_chunk, pcm_chunk, pcm_chunk, pcm_chunk, pcm_chunk, pcm_chunk,
       pcm_chunk, pcm_chunk]
     = \<lparr>audio_buffer = [], sent = [error_result], closed = None\<rparr>"
  by (simp add: websocket_audio_def new_session_def pcm_chunk_def loop_body_bytes TARGET_SIZE_eq)

end
